theory Spec2Isabelle
  imports Main
begin

section \<open>Signaling.js: the call state machine\<close>

text \<open>
  The component keeps five React state variables and five refs. An event handler reads the
  state of the last committed render and its setters take effect before the next event, so a
  handler is a function from the state before the event to the state after it. Everything a
  handler does to the outside (\<open>onSignal\<close>, \<open>track.stop()\<close>, \<open>pc.close()\<close>, \<open>alert\<close>,
  \<open>window.confirm\<close>, \<open>onCallStateChange\<close>) is appended to a log kept in the state. What the
  browser answers (the user's decision, the outcome of each promise) is read from an
  environment record; a rejected promise is \<open>Inl\<close> of the error's message.
\<close>

type_synonym user_id = string
type_synonym blob = string
type_synonym handle = nat

datatype call_status = Idle | Calling | Connecting | Connected | Ended

text \<open>The argument of \<open>onSignal\<close>.\<close>

record out_signal =
  o_type :: string
  o_data :: "blob option"
  o_target_user :: "user_id option"

text \<open>The \<open>signal\<close> object of an inbound \<open>webrtc_signal\<close> frame.\<close>

record in_signal =
  sig_type :: string
  sig_data :: "blob option"
  from_user :: "user_id option"

text \<open>An \<open>RTCPeerConnection\<close> object: what the component's calls have put into it.\<close>

record peer_connection =
  pc_tracks :: "handle list"
  pc_localDescription :: "blob option"
  pc_remoteDescription :: "blob option"
  pc_candidates :: "blob list"

record sig_state =
  isInCall :: bool
  isConnecting :: bool
  isMuted :: bool
  callStatus :: call_status
  remoteUserId :: "user_id option"
  localStreamRef :: "handle option"
  remoteStreamRef :: "handle option"
  peerConnectionRef :: "handle option"
  localAudioSrc :: "handle option"
  remoteAudioSrc :: "handle option"
  pcs :: "handle \<Rightarrow> peer_connection option"
  next_pc :: handle
  signals :: "out_signal list"
  stopped_streams :: "handle list"
  closed_pcs :: "handle list"
  alerts :: "string list"
  confirms :: "string list"
  callStateChanges :: "bool list"

record env =
  confirm_result :: bool
  getUserMedia_result :: "string + handle"
  createOffer_result :: "string + blob"
  createAnswer_result :: "string + blob"
  setLocalDescription_result :: "string + unit"
  setRemoteDescription_result :: "string + unit"
  addIceCandidate_result :: "string + unit"

text \<open>The state of a freshly mounted component (the \<open>useState\<close> and \<open>useRef\<close> initial values).\<close>

definition sig_init :: sig_state where
  "sig_init = \<lparr>isInCall = False, isConnecting = False, isMuted = False, callStatus = Idle,
     remoteUserId = None, localStreamRef = None, remoteStreamRef = None,
     peerConnectionRef = None, localAudioSrc = None, remoteAudioSrc = None,
     pcs = (\<lambda>_. None), next_pc = 0, signals = [], stopped_streams = [], closed_pcs = [],
     alerts = [], confirms = [], callStateChanges = []\<rparr>"

text \<open>JavaScript truthiness of a nullable string: \<open>null\<close> and the empty string are falsy.\<close>

definition truthy :: "string option \<Rightarrow> bool" where
  "truthy u = (case u of None \<Rightarrow> False | Some v \<Rightarrow> v \<noteq> [])"

text \<open>A nullable string inside a template literal.\<close>

definition show_user :: "user_id option \<Rightarrow> string" where
  "show_user u = (case u of None \<Rightarrow> ''null'' | Some v \<Rightarrow> v)"

definition update_pc :: "handle \<Rightarrow> (peer_connection \<Rightarrow> peer_connection) \<Rightarrow> sig_state \<Rightarrow> sig_state" where
  "update_pc h f s = (case pcs s h of None \<Rightarrow> s | Some p \<Rightarrow> s\<lparr>pcs := (pcs s)(h \<mapsto> f p)\<rparr>)"

text \<open>\<open>createPeerConnection\<close> (lines 31-74): a new object on the heap, returned to the caller.\<close>

definition createPeerConnection :: "sig_state \<Rightarrow> handle \<times> sig_state" where
  "createPeerConnection s =
     (next_pc s,
      s\<lparr>pcs := (pcs s)(next_pc s \<mapsto>
             \<lparr>pc_tracks = [], pc_localDescription = None, pc_remoteDescription = None,
              pc_candidates = []\<rparr>),
        next_pc := Suc (next_pc s)\<rparr>)"

text \<open>\<open>getUserMedia\<close> (lines 77-98): the stream is stored in the ref and the audio element;
  a failure is rethrown with a fixed message.\<close>

definition getUserMedia :: "env \<Rightarrow> sig_state \<Rightarrow> (string + handle) \<times> sig_state" where
  "getUserMedia e s =
     (case getUserMedia_result e of
        Inr stream \<Rightarrow> (Inr stream, s\<lparr>localStreamRef := Some stream, localAudioSrc := Some stream\<rparr>)
      | Inl err \<Rightarrow> (Inl ''Failed to access microphone. Please check permissions.'', s))"

text \<open>\<open>startCall\<close> (lines 101-136). \<open>startCall_begin\<close> is the part that runs before the first
  \<open>await\<close>; \<open>startCall_resume\<close> is the rest, run when the media promise settles;
  \<open>startCall_catch\<close> is the \<open>catch\<close> block.\<close>

definition startCall_begin :: "user_id option \<Rightarrow> sig_state \<Rightarrow> sig_state" where
  "startCall_begin targetUserId s =
     s\<lparr>isConnecting := True, callStatus := Calling, remoteUserId := targetUserId\<rparr>"

definition startCall_catch :: "string \<Rightarrow> sig_state \<Rightarrow> sig_state" where
  "startCall_catch msg s =
     s\<lparr>isConnecting := False, callStatus := Idle, alerts := alerts s @ [msg]\<rparr>"

definition startCall_resume :: "env \<Rightarrow> user_id option \<Rightarrow> sig_state \<Rightarrow> sig_state" where
  "startCall_resume e targetUserId s =
     (case getUserMedia e s of
        (Inl msg, s1) \<Rightarrow> startCall_catch msg s1
      | (Inr stream, s1) \<Rightarrow>
          (case createPeerConnection s1 of
             (pc, s2) \<Rightarrow>
               (let s3 = s2\<lparr>peerConnectionRef := Some pc\<rparr>;
                    s4 = update_pc pc (\<lambda>p. p\<lparr>pc_tracks := pc_tracks p @ [stream]\<rparr>) s3
                in case createOffer_result e of
                     Inl msg \<Rightarrow> startCall_catch msg s4
                   | Inr offer \<Rightarrow>
                       (case setLocalDescription_result e of
                          Inl msg \<Rightarrow> startCall_catch msg s4
                        | Inr _ \<Rightarrow>
                            (let s5 = update_pc pc (\<lambda>p. p\<lparr>pc_localDescription := Some offer\<rparr>) s4
                             in s5\<lparr>signals := signals s5 @
                                  [\<lparr>o_type = ''offer'', o_data = Some offer,
                                    o_target_user = targetUserId\<rparr>]\<rparr>)))))"

definition startCall :: "env \<Rightarrow> user_id option \<Rightarrow> sig_state \<Rightarrow> sig_state" where
  "startCall e targetUserId s = startCall_resume e targetUserId (startCall_begin targetUserId s)"

text \<open>The render function shows the Start Call button, the only caller of \<open>startCall\<close>,
  under \<open>!isInCall && !isConnecting\<close> (line 297).\<close>

definition start_button_rendered :: "sig_state \<Rightarrow> bool" where
  "start_button_rendered s = (\<not> isInCall s \<and> \<not> isConnecting s)"

text \<open>\<open>answerCall\<close> (lines 139-177), split the same way.\<close>

definition answerCall_begin :: "user_id option \<Rightarrow> sig_state \<Rightarrow> sig_state" where
  "answerCall_begin fromUserId s =
     s\<lparr>isConnecting := True, callStatus := Connecting, remoteUserId := fromUserId\<rparr>"

definition answerCall_catch :: "string \<Rightarrow> sig_state \<Rightarrow> sig_state" where
  "answerCall_catch msg s =
     s\<lparr>isConnecting := False, callStatus := Idle,
       alerts := alerts s @ [''Failed to answer call: '' @ msg]\<rparr>"

definition answerCall_resume :: "env \<Rightarrow> blob option \<Rightarrow> user_id option \<Rightarrow> sig_state \<Rightarrow> sig_state" where
  "answerCall_resume e offer fromUserId s =
     (case getUserMedia e s of
        (Inl msg, s1) \<Rightarrow> answerCall_catch msg s1
      | (Inr stream, s1) \<Rightarrow>
          (case createPeerConnection s1 of
             (pc, s2) \<Rightarrow>
               (let s3 = s2\<lparr>peerConnectionRef := Some pc\<rparr>;
                    s4 = update_pc pc (\<lambda>p. p\<lparr>pc_tracks := pc_tracks p @ [stream]\<rparr>) s3
                in case setRemoteDescription_result e of
                     Inl msg \<Rightarrow> answerCall_catch msg s4
                   | Inr _ \<Rightarrow>
                       (let s5 = update_pc pc (\<lambda>p. p\<lparr>pc_remoteDescription := offer\<rparr>) s4
                        in case createAnswer_result e of
                             Inl msg \<Rightarrow> answerCall_catch msg s5
                           | Inr answer \<Rightarrow>
                               (case setLocalDescription_result e of
                                  Inl msg \<Rightarrow> answerCall_catch msg s5
                                | Inr _ \<Rightarrow>
                                    (let s6 = update_pc pc
                                                (\<lambda>p. p\<lparr>pc_localDescription := Some answer\<rparr>) s5
                                     in s6\<lparr>signals := signals s6 @
                                          [\<lparr>o_type = ''answer'', o_data = Some answer,
                                            o_target_user = fromUserId\<rparr>]\<rparr>))))))"

definition answerCall :: "env \<Rightarrow> blob option \<Rightarrow> user_id option \<Rightarrow> sig_state \<Rightarrow> sig_state" where
  "answerCall e offer fromUserId s =
     answerCall_resume e offer fromUserId (answerCall_begin fromUserId s)"

text \<open>\<open>handleEndCall\<close> (lines 237-281). The function reads \<open>isInCall\<close> and \<open>remoteUserId\<close>
  from the render it was created in; \<open>handleEndCall_in\<close> takes those two captured values,
  and \<open>handleEndCall\<close> is the call from a handler of the current render.\<close>

definition handleEndCall_in :: "bool \<Rightarrow> user_id option \<Rightarrow> sig_state \<Rightarrow> sig_state" where
  "handleEndCall_in cap_isInCall cap_remoteUserId s =
     (let s1 = (case localStreamRef s of
                  Some st \<Rightarrow> s\<lparr>stopped_streams := stopped_streams s @ [st],
                              localStreamRef := None\<rparr>
                | None \<Rightarrow> s);
          s2 = (case remoteStreamRef s1 of
                  Some st \<Rightarrow> s1\<lparr>stopped_streams := stopped_streams s1 @ [st],
                               remoteStreamRef := None\<rparr>
                | None \<Rightarrow> s1);
          s3 = (case peerConnectionRef s2 of
                  Some pc \<Rightarrow> s2\<lparr>closed_pcs := closed_pcs s2 @ [pc], peerConnectionRef := None\<rparr>
                | None \<Rightarrow> s2);
          s4 = s3\<lparr>localAudioSrc := None, remoteAudioSrc := None\<rparr>;
          s5 = (if cap_isInCall \<and> truthy cap_remoteUserId
                then s4\<lparr>signals := signals s4 @
                       [\<lparr>o_type = ''call-ended'', o_data = None,
                         o_target_user = cap_remoteUserId\<rparr>]\<rparr>
                else s4)
      in s5\<lparr>isInCall := False, isConnecting := False, callStatus := Idle,
            remoteUserId := None, isMuted := False,
            callStateChanges := callStateChanges s5 @ [False]\<rparr>)"

definition handleEndCall :: "sig_state \<Rightarrow> sig_state" where
  "handleEndCall s = handleEndCall_in (isInCall s) (remoteUserId s) s"

text \<open>The two event handlers that \<open>createPeerConnection\<close> installs and that touch the call
  session: \<open>ontrack\<close> (lines 45-51) and \<open>onconnectionstatechange\<close> (lines 53-63), the latter
  with the values its \<open>handleEndCall\<close> captured.\<close>

definition pc_ontrack :: "handle \<Rightarrow> sig_state \<Rightarrow> sig_state" where
  "pc_ontrack stream s = s\<lparr>remoteStreamRef := Some stream, remoteAudioSrc := Some stream\<rparr>"

definition pc_onconnectionstatechange ::
    "bool \<Rightarrow> user_id option \<Rightarrow> string \<Rightarrow> sig_state \<Rightarrow> sig_state" where
  "pc_onconnectionstatechange cap_isInCall cap_remoteUserId connectionState s =
     (if connectionState = ''connected''
      then s\<lparr>callStatus := Connected, isConnecting := False, isInCall := True,
             callStateChanges := callStateChanges s @ [True]\<rparr>
      else if connectionState = ''disconnected'' \<or> connectionState = ''failed''
      then handleEndCall_in cap_isInCall cap_remoteUserId s
      else s)"

text \<open>\<open>handleRemoteSignal\<close> (lines 180-234). The guard of line 184 comes first; the
  \<open>switch\<close> follows in the source's order. A promise rejected inside is caught by the
  function's own \<open>catch\<close>, which only logs.\<close>

definition handleRemoteSignal :: "env \<Rightarrow> in_signal \<Rightarrow> sig_state \<Rightarrow> sig_state" where
  "handleRemoteSignal e signal s =
     (if peerConnectionRef s = None \<and>
         (sig_type signal = ''offer'' \<or> sig_type signal = ''answer'')
      then s
      else if sig_type signal = ''offer'' then
        (let s1 = s\<lparr>confirms := confirms s @
                    [''Incoming call from user '' @ show_user (from_user signal) @ ''. Accept?'']\<rparr>
         in if confirm_result e
            then answerCall e (sig_data signal) (from_user signal) s1
            else s1\<lparr>signals := signals s1 @
                   [\<lparr>o_type = ''call-rejected'', o_data = None,
                     o_target_user = from_user signal\<rparr>]\<rparr>)
      else if sig_type signal = ''answer'' then
        (case peerConnectionRef s of
           None \<Rightarrow> s
         | Some pc \<Rightarrow>
             (case setRemoteDescription_result e of
                Inl _ \<Rightarrow> s
              | Inr _ \<Rightarrow> update_pc pc (\<lambda>p. p\<lparr>pc_remoteDescription := sig_data signal\<rparr>) s))
      else if sig_type signal = ''ice-candidate'' then
        (case peerConnectionRef s of
           None \<Rightarrow> s
         | Some pc \<Rightarrow>
             (case addIceCandidate_result e of
                Inl _ \<Rightarrow> s
              | Inr _ \<Rightarrow>
                  update_pc pc
                    (\<lambda>p. p\<lparr>pc_candidates := pc_candidates p @
                            (case sig_data signal of None \<Rightarrow> [] | Some c \<Rightarrow> [c])\<rparr>) s))
      else if sig_type signal = ''call-ended'' then handleEndCall s
      else if sig_type signal = ''call-rejected'' then
        s\<lparr>isConnecting := False, callStatus := Idle,
          alerts := alerts s @ [''Call was rejected'']\<rparr>
      else s)"

text \<open>The handles a ref holds, as a list: empty for \<open>null\<close>.\<close>

definition held :: "handle option \<Rightarrow> handle list" where
  "held r = (case r of None \<Rightarrow> [] | Some h \<Rightarrow> [h])"

text \<open>Environments and sessions used as concrete inputs below.\<close>

definition env_ok :: env where
  "env_ok = \<lparr>confirm_result = True, getUserMedia_result = Inr 1,
     createOffer_result = Inr ''sdp-offer'', createAnswer_result = Inr ''sdp-answer'',
     setLocalDescription_result = Inr (), setRemoteDescription_result = Inr (),
     addIceCandidate_result = Inr ()\<rparr>"

text \<open>A caller's session that reached \<open>connected\<close>: Start Call pressed on a fresh component
  (the button calls \<open>startCall()\<close>, so the target is \<open>null\<close>), the peer's answer applied, and
  the connection reported as connected.\<close>

definition connected_session :: sig_state where
  "connected_session =
     pc_onconnectionstatechange False None ''connected''
       (handleRemoteSignal env_ok
          \<lparr>sig_type = ''answer'', sig_data = Some ''sdp-answer'', from_user = Some ''u2''\<rparr>
          (startCall env_ok None sig_init))"

text \<open>Two calls in flight, reached through the button alone. Start Call is pressed on a
  fresh component; while the media request is pending a \<open>call-rejected\<close> signal arrives,
  which is \<open>rejected_while_pending\<close>; Start Call is pressed again; then the first media
  request settles with stream 1 and the second with stream 2, and each \<open>startCall\<close> runs
  to its end.\<close>

definition rejected_while_pending :: sig_state where
  "rejected_while_pending =
     handleRemoteSignal env_ok
       \<lparr>sig_type = ''call-rejected'', sig_data = None, from_user = Some ''u2''\<rparr>
       (startCall_begin None sig_init)"

definition two_calls_in_flight :: sig_state where
  "two_calls_in_flight =
     startCall_resume (env_ok\<lparr>getUserMedia_result := Inr 2\<rparr>) None
       (startCall_resume env_ok None
          (startCall_begin None rejected_while_pending))"

section \<open>Chat.js: transport session and chat stream\<close>

text \<open>
  The chat component is modelled the same way. \<open>ws\<close> is the \<open>readyState\<close> of the socket
  held in the \<open>ws\<close> state variable (\<open>None\<close> while that is \<open>null\<close>); \<open>sockets_created\<close>
  counts the \<open>new WebSocket\<close> calls; \<open>sent\<close> logs the frames passed to \<open>ws.send\<close> and
  \<open>posted\<close> the bodies handed to the persistence request. The text of the chat input,
  which the code trims, is a list of UTF-16 code units, as a JavaScript string is; strings
  that the code only compares, concatenates or passes on stay \<open>string\<close>. Timers are kept
  in a queue with their due time on a millisecond clock \<open>now\<close>,
  which also stands for \<open>Date.now()\<close>; timer ids are positive, as in browsers, so the
  model counts the timers created and numbers them from 1.
\<close>

type_synonym js_text = "nat list"

text \<open>The code units of a literal whose characters are below U+0100.\<close>

definition code_units :: "string \<Rightarrow> js_text" where
  "code_units x = map of_char x"

datatype conn_status = StatusDisconnected | StatusConnected | StatusReconnecting | StatusError

datatype ready_state = CONNECTING | OPEN | CLOSING | CLOSED

record message =
  m_id :: nat
  m_content :: string
  m_sender :: string
  m_timestamp :: nat

datatype out_frame =
    ChatMessageOut js_text
  | TypingOut bool
  | WebrtcSignalOut string "blob option" "user_id option"
  | PingOut

text \<open>A parsed inbound frame, by its \<open>type\<close> field.\<close>

datatype ws_data =
    ConnectionEstablished string
  | ChatMessage message
  | TypingIndicator user_id bool
  | WebrtcSignal in_signal
  | VoiceData
  | ErrorFrame string
  | Pong
  | UnknownFrame string

text \<open>The two callbacks the component passes to \<open>setTimeout\<close>: the one of \<open>onclose\<close>, with
  the \<open>wsToken\<close> its effect captured, and the one of \<open>handleTyping\<close>.\<close>

datatype timer_cb = SetReconnecting "string option" | TypingStopped

record timer =
  t_id :: nat
  t_due :: nat
  t_cb :: timer_cb

text \<open>What the persistence request comes back with: a rejected \<open>fetch\<close> with its message,
  or a response with its \<open>ok\<close> flag and \<open>status\<close>.\<close>

datatype fetch_outcome = FetchFailed string | Response bool nat

record chat_state =
  ws :: "ready_state option"
  messages :: "message list"
  wsToken :: "string option"
  sockets_created :: nat
  newMessage :: js_text
  connectionStatus :: conn_status
  isTyping :: bool
  typingUsers :: "user_id list"
  typingTimeoutRef :: "nat option"
  now :: nat
  timers :: "timer list"
  timer_count :: nat
  sent :: "out_frame list"
  posted :: "js_text list"

text \<open>The state of a freshly mounted component, before its effects have run.\<close>

definition chat_init :: chat_state where
  "chat_init = \<lparr>ws = None, messages = [], wsToken = None, sockets_created = 0,
     newMessage = [], connectionStatus = StatusDisconnected,
     isTyping = False, typingUsers = [], typingTimeoutRef = None, now = 0, timers = [],
     timer_count = 0, sent = [], posted = []\<rparr>"

text \<open>\<open>handleTypingIndicator\<close> (lines 23-34).\<close>

definition handleTypingIndicator :: "user_id \<Rightarrow> bool \<Rightarrow> chat_state \<Rightarrow> chat_state" where
  "handleTypingIndicator user_id is_typing s =
     (if is_typing
      then s\<lparr>typingUsers :=
               (if \<not> List.member (typingUsers s) user_id then typingUsers s @ [user_id]
                else typingUsers s)\<rparr>
      else s\<lparr>typingUsers := filter (\<lambda>i. i \<noteq> user_id) (typingUsers s)\<rparr>)"

text \<open>\<open>handleWebSocketMessage\<close> (lines 37-77). A \<open>webrtc_signal\<close> frame goes to the
  Signaling component, so the function works on both components' states.\<close>

definition handleWebSocketMessage ::
    "env \<Rightarrow> ws_data \<Rightarrow> chat_state \<times> sig_state \<Rightarrow> chat_state \<times> sig_state" where
  "handleWebSocketMessage e data cs =
     (case cs of (c, g) \<Rightarrow>
        (case data of
           ConnectionEstablished _ \<Rightarrow> (c, g)
         | ChatMessage m \<Rightarrow> (c\<lparr>messages := messages c @ [m]\<rparr>, g)
         | TypingIndicator u b \<Rightarrow> (handleTypingIndicator u b c, g)
         | WebrtcSignal signal \<Rightarrow> (c, handleRemoteSignal e signal g)
         | VoiceData \<Rightarrow> (c, g)
         | ErrorFrame _ \<Rightarrow> (c, g)
         | Pong \<Rightarrow> (c, g)
         | UnknownFrame _ \<Rightarrow> (c, g)))"

text \<open>\<open>setTimeout\<close> and \<open>clearTimeout\<close>.\<close>

definition setTimeout :: "timer_cb \<Rightarrow> nat \<Rightarrow> chat_state \<Rightarrow> nat \<times> chat_state" where
  "setTimeout cb delay s =
     (Suc (timer_count s),
      s\<lparr>timers := timers s @
               [\<lparr>t_id = Suc (timer_count s), t_due = now s + delay, t_cb = cb\<rparr>],
        timer_count := Suc (timer_count s)\<rparr>)"

definition clearTimeout :: "nat \<Rightarrow> chat_state \<Rightarrow> chat_state" where
  "clearTimeout i s = s\<lparr>timers := filter (\<lambda>t. t_id t \<noteq> i) (timers s)\<rparr>"

text \<open>The connection effect (lines 82-126): nothing without a \<open>wsToken\<close>; otherwise a new
  socket, which starts in \<open>CONNECTING\<close>, is built and stored in \<open>ws\<close>. React runs the
  effect on mount and again only when \<open>wsToken\<close>, \<open>conversationId\<close> or
  \<open>handleWebSocketMessage\<close> changes; none of the handlers below changes any of them.\<close>

definition connect_effect :: "chat_state \<Rightarrow> chat_state" where
  "connect_effect s =
     (if \<not> truthy (wsToken s) then s
      else s\<lparr>sockets_created := Suc (sockets_created s), ws := Some CONNECTING\<rparr>)"

text \<open>The socket's handlers (lines 90-119). The browser sets the socket's \<open>readyState\<close>
  before it fires the event: \<open>OPEN\<close> for \<open>open\<close>, \<open>CLOSED\<close> for \<open>close\<close> and for the
  \<open>error\<close> that precedes the \<open>close\<close> of a failed connection. \<open>ws_onclose\<close> takes the
  \<open>wsToken\<close> captured by the effect that opened the socket.\<close>

definition socket_now :: "ready_state \<Rightarrow> chat_state \<Rightarrow> chat_state" where
  "socket_now r s = s\<lparr>ws := (case ws s of None \<Rightarrow> None | Some _ \<Rightarrow> Some r)\<rparr>"

definition ws_onopen :: "chat_state \<Rightarrow> chat_state" where
  "ws_onopen s = (socket_now OPEN s)\<lparr>connectionStatus := StatusConnected\<rparr>"

definition ws_onclose :: "string option \<Rightarrow> chat_state \<Rightarrow> chat_state" where
  "ws_onclose cap_wsToken s =
     snd (setTimeout (SetReconnecting cap_wsToken) 3000
            ((socket_now CLOSED s)\<lparr>connectionStatus := StatusDisconnected\<rparr>))"

definition ws_onerror :: "chat_state \<Rightarrow> chat_state" where
  "ws_onerror s = (socket_now CLOSED s)\<lparr>connectionStatus := StatusError\<rparr>"

text \<open>\<open>sendTypingIndicator\<close> (lines 181-188) and \<open>handleTyping\<close> (lines 191-209).\<close>

definition sendTypingIndicator :: "bool \<Rightarrow> chat_state \<Rightarrow> chat_state" where
  "sendTypingIndicator typing s =
     (if ws s = Some OPEN then s\<lparr>sent := sent s @ [TypingOut typing]\<rparr> else s)"

definition handleTyping :: "js_text \<Rightarrow> chat_state \<Rightarrow> chat_state" where
  "handleTyping v s =
     (let s1 = s\<lparr>newMessage := v\<rparr>;
          s2 = (if \<not> isTyping s1 then sendTypingIndicator True (s1\<lparr>isTyping := True\<rparr>) else s1);
          s3 = (case typingTimeoutRef s2 of
                  Some i \<Rightarrow> if i \<noteq> 0 then clearTimeout i s2 else s2
                | None \<Rightarrow> s2)
      in case setTimeout TypingStopped 1000 s3 of
           (i, s4) \<Rightarrow> s4\<lparr>typingTimeoutRef := Some i\<rparr>)"

text \<open>Running a timer's callback, and letting time pass: \<open>advance_to\<close> fires the pending
  timers that are due by the target time, earliest first, then sets the clock.\<close>

definition run_timer :: "timer_cb \<Rightarrow> chat_state \<Rightarrow> chat_state" where
  "run_timer cb s =
     (case cb of
        SetReconnecting cap_wsToken \<Rightarrow>
          (if truthy cap_wsToken then s\<lparr>connectionStatus := StatusReconnecting\<rparr> else s)
      | TypingStopped \<Rightarrow> sendTypingIndicator False (s\<lparr>isTyping := False\<rparr>))"

fun earliest :: "timer list \<Rightarrow> timer option" where
  "earliest [] = None"
| "earliest (t # ts) =
     (case earliest ts of
        None \<Rightarrow> Some t
      | Some u \<Rightarrow> if t_due t \<le> t_due u then Some t else Some u)"

function advance_to :: "nat \<Rightarrow> chat_state \<Rightarrow> chat_state" where
  "advance_to target s =
     (case earliest (timers s) of
        None \<Rightarrow> s\<lparr>now := max (now s) target\<rparr>
      | Some t \<Rightarrow>
          if t_due t \<le> target
          then advance_to target
                 (run_timer (t_cb t)
                    (s\<lparr>timers := remove1 t (timers s), now := max (now s) (t_due t)\<rparr>))
          else s\<lparr>now := max (now s) target\<rparr>)"
  by pat_completeness auto
termination
proof (relation "measure (\<lambda>(target, s). length (timers s))")
  show "wf (measure (\<lambda>(target, s). length (timers s)))" by simp
next
  fix target :: nat and s :: chat_state and t :: timer
  assume e: "earliest (timers s) = Some t"
  have mem: "earliest ts = Some u \<Longrightarrow> u \<in> set ts" for ts u
    by (induction ts arbitrary: u) (auto split: option.splits if_splits)
  have keep: "timers (run_timer cb s') = timers s'" for cb s'
    by (cases cb) (simp_all add: run_timer_def sendTypingIndicator_def)
  from mem [OF e] have "length (remove1 t (timers s)) < length (timers s)"
    by (simp add: length_remove1) (cases "timers s", auto)
  then show "((target, run_timer (t_cb t)
                 (s\<lparr>timers := remove1 t (timers s), now := max (now s) (t_due t)\<rparr>)),
              (target, s)) \<in> measure (\<lambda>(target, s). length (timers s))"
    by (simp add: keep)
qed

declare advance_to.simps [simp del]

definition advance :: "nat \<Rightarrow> chat_state \<Rightarrow> chat_state" where
  "advance dt s = advance_to (now s + dt) s"

text \<open>\<open>String.prototype.trim\<close> strips the code units that ECMAScript calls white space or
  line terminator: tab, line feed, vertical tab, form feed, carriage return, space,
  U+00A0, U+1680, U+2000 to U+200A, U+2028, U+2029, U+202F, U+205F, U+3000 and U+FEFF.\<close>

definition is_space :: "nat \<Rightarrow> bool" where
  "is_space c =
     (List.member
        [0x09, 0x0A, 0x0B, 0x0C, 0x0D, 0x20, 0xA0, 0x1680, 0x2028, 0x2029, 0x202F, 0x205F,
         0x3000, 0xFEFF] c \<or>
      (0x2000 \<le> c \<and> c \<le> 0x200A))"

definition trim :: "js_text \<Rightarrow> js_text" where
  "trim x = rev (dropWhile is_space (rev (dropWhile is_space x)))"

text \<open>A number inside a template literal: its decimal digits.\<close>

definition digit_char :: "nat \<Rightarrow> char" where
  "digit_char d = ''0123456789'' ! d"

function show_nat :: "nat \<Rightarrow> string" where
  "show_nat n = (if n < 10 then [digit_char n] else show_nat (n div 10) @ [digit_char (n mod 10)])"
  by pat_completeness auto
termination
  by (relation "measure (\<lambda>n. n)") auto

declare show_nat.simps [simp del]

text \<open>\<open>sendMessage\<close> (lines 129-168). \<open>sendMessage_begin\<close> runs up to the \<open>await\<close> of the
  persistence request; \<open>sendMessage_try\<close> is the rest of the \<open>try\<close> block once the request
  has settled, \<open>Inl\<close> being the thrown error's message; \<open>sendMessage_resume\<close> adds the
  \<open>catch\<close> block.\<close>

definition sendMessage_begin :: "js_text \<Rightarrow> chat_state \<Rightarrow> chat_state" where
  "sendMessage_begin content s =
     (if trim content = [] then s else s\<lparr>posted := posted s @ [content]\<rparr>)"

definition sendMessage_try ::
    "js_text \<Rightarrow> fetch_outcome \<Rightarrow> chat_state \<Rightarrow> string + chat_state" where
  "sendMessage_try content outcome s =
     (case outcome of
        FetchFailed msg \<Rightarrow> Inl msg
      | Response ok status \<Rightarrow>
          if \<not> ok then Inl (''Failed to send message: '' @ show_nat status)
          else if ws s = Some OPEN then Inr (s\<lparr>sent := sent s @ [ChatMessageOut content]\<rparr>)
          else Inr s)"

definition sendMessage_resume :: "js_text \<Rightarrow> fetch_outcome \<Rightarrow> chat_state \<Rightarrow> chat_state" where
  "sendMessage_resume content outcome s =
     (case sendMessage_try content outcome s of
        Inr s' \<Rightarrow> s'
      | Inl msg \<Rightarrow>
          s\<lparr>messages := messages s @
               [\<lparr>m_id = now s, m_content = ''Error: '' @ msg, m_sender = ''system'',
                 m_timestamp = now s\<rparr>]\<rparr>)"

definition sendMessage :: "js_text \<Rightarrow> fetch_outcome \<Rightarrow> chat_state \<Rightarrow> chat_state" where
  "sendMessage content outcome s =
     (if trim content = [] then s
      else sendMessage_resume content outcome (sendMessage_begin content s))"

text \<open>\<open>handleSubmit\<close> (lines 171-178): what runs in the submit event itself, the persistence
  request still pending.\<close>

definition handleSubmit :: "chat_state \<Rightarrow> chat_state" where
  "handleSubmit s =
     (if trim (newMessage s) \<noteq> []
      then sendTypingIndicator False ((sendMessage_begin (newMessage s) s)\<lparr>newMessage := []\<rparr>)
      else s)"

text \<open>\<open>handleSignal\<close> (lines 217-226), the \<open>onSignal\<close> of the Signaling component.\<close>

definition handleSignal :: "out_signal \<Rightarrow> chat_state \<Rightarrow> chat_state" where
  "handleSignal signal s =
     (if ws s = Some OPEN
      then s\<lparr>sent := sent s @
             [WebrtcSignalOut (o_type signal) (o_data signal) (o_target_user signal)]\<rparr>
      else s)"

text \<open>A chat whose socket is open: mounted with a token, the connection effect run and the
  \<open>open\<close> event received. Then typing as a sequence of keystrokes, each after a pause.\<close>

definition open_chat :: chat_state where
  "open_chat = ws_onopen (connect_effect (chat_init\<lparr>wsToken := Some ''token''\<rparr>))"


fun remote_typing :: "(user_id \<times> bool) list \<Rightarrow> chat_state \<Rightarrow> chat_state" where
  "remote_typing [] s = s"
| "remote_typing ((u, b) # evs) s = remote_typing evs (handleTypingIndicator u b s)"

text \<open>A pending timer whose callback will set the status to \<open>reconnecting\<close>.\<close>

definition sets_reconnecting :: "timer \<Rightarrow> bool" where
  "sets_reconnecting t =
     (case t_cb t of SetReconnecting cap_wsToken \<Rightarrow> truthy cap_wsToken | TypingStopped \<Rightarrow> False)"


section \<open>Facts about the model\<close>

lemma code_units_hello: "code_units ''hello'' = [104, 101, 108, 108, 111]"
  by (simp add: code_units_def)

lemma trim_hello: "trim (code_units ''hello'') = code_units ''hello''"
  by (simp add: code_units_hello trim_def is_space_def)

lemma hello_not_blank: "trim (code_units ''hello'') \<noteq> []"
  by (simp add: trim_hello) (simp add: code_units_def)

lemma trim_nbsp: "trim [0xA0] = []"
  by (simp add: trim_def is_space_def)

lemma show_nat_500: "show_nat 500 = ''500''"
  by (simp add: show_nat.simps digit_char_def)

lemma handleTypingIndicator_distinct:
  "distinct (typingUsers s) \<Longrightarrow> distinct (typingUsers (handleTypingIndicator u b s))"
  by (simp add: handleTypingIndicator_def)

lemma remote_typing_distinct:
  "distinct (typingUsers s) \<Longrightarrow> distinct (typingUsers (remote_typing evs s))"
proof (induction evs arbitrary: s)
  case Nil
  then show ?case by simp
next
  case (Cons ev evs)
  obtain u b where ev: "ev = (u, b)" by (cases ev)
  from Cons.prems have "distinct (typingUsers (handleTypingIndicator u b s))"
    by (rule handleTypingIndicator_distinct)
  then show ?case unfolding ev by (simp add: Cons.IH)
qed









text \<open>Which timer \<open>advance_to\<close> fires first, and what the fired timers do to the
  connection status.\<close>

lemma earliest_mem: "earliest ts = Some t \<Longrightarrow> t \<in> set ts"
  by (induction ts arbitrary: t) (auto split: option.splits if_splits)

lemma earliest_None: "earliest ts = None \<Longrightarrow> ts = []"
  by (cases ts) (auto split: option.splits if_splits)

lemma earliest_Some: "ts \<noteq> [] \<Longrightarrow> \<exists>t. earliest ts = Some t"
  using earliest_None by (cases "earliest ts") auto

lemma earliest_le: "earliest ts = Some t \<Longrightarrow> u \<in> set ts \<Longrightarrow> t_due t \<le> t_due u"
proof (induction ts arbitrary: t)
  case Nil
  then show ?case by simp
next
  case (Cons a ts)
  show ?case
  proof (cases "earliest ts")
    case None
    then have "ts = []" by (rule earliest_None)
    with Cons.prems None show ?thesis by simp
  next
    case (Some m)
    have m: "u \<in> set ts \<Longrightarrow> t_due m \<le> t_due u"
      using Cons.IH [OF Some] by simp
    from Cons.prems(1) Some have t: "t = (if t_due a \<le> t_due m then a else m)"
      by (auto split: if_splits)
    from Cons.prems(2) have "u = a \<or> u \<in> set ts" by simp
    then show ?thesis
    proof
      assume "u = a"
      with t show ?thesis by (simp split: if_splits)
    next
      assume "u \<in> set ts"
      from m [OF this] t show ?thesis by (simp split: if_splits)
    qed
  qed
qed

lemma run_timer_timers: "timers (run_timer cb s) = timers s"
  by (cases cb) (simp_all add: run_timer_def sendTypingIndicator_def)

lemma run_timer_status_kept:
  "\<not> sets_reconnecting t \<Longrightarrow> connectionStatus (run_timer (t_cb t) s) = connectionStatus s"
  by (cases "t_cb t") (simp_all add: sets_reconnecting_def run_timer_def sendTypingIndicator_def)

lemma run_timer_status_set:
  "sets_reconnecting t \<Longrightarrow> connectionStatus (run_timer (t_cb t) s) = StatusReconnecting"
  by (cases "t_cb t") (simp_all add: sets_reconnecting_def run_timer_def)

lemma advance_to_status_kept:
  "\<forall>t\<in>set (timers s). t_due t \<le> target \<longrightarrow> \<not> sets_reconnecting t \<Longrightarrow>
   connectionStatus (advance_to target s) = connectionStatus s"
proof (induction target s rule: advance_to.induct)
  case (1 target s)
  show ?case
  proof (cases "earliest (timers s)")
    case None
    then show ?thesis by (simp add: advance_to.simps [of target s])
  next
    case (Some t)
    show ?thesis
    proof (cases "t_due t \<le> target")
      case False
      with Some show ?thesis by (simp add: advance_to.simps [of target s])
    next
      case True
      let ?s' = "run_timer (t_cb t)
                   (s\<lparr>timers := remove1 t (timers s), now := max (now s) (t_due t)\<rparr>)"
      from earliest_mem [OF Some] True "1.prems" have quiet: "\<not> sets_reconnecting t"
        by simp
      have "\<forall>u\<in>set (timers ?s'). t_due u \<le> target \<longrightarrow> \<not> sets_reconnecting u"
        using "1.prems" by (auto simp add: run_timer_timers dest: notin_set_remove1)
      then have "connectionStatus (advance_to target ?s') = connectionStatus ?s'"
        by (rule "1.IH" [OF Some True])
      also have "\<dots> = connectionStatus s"
        by (simp add: run_timer_status_kept [OF quiet])
      finally show ?thesis
        using Some True by (simp add: advance_to.simps [of target s])
    qed
  qed
qed

lemma advance_to_status_reconnecting:
  "r \<in> set (timers s) \<Longrightarrow> sets_reconnecting r \<Longrightarrow> t_due r \<le> target \<Longrightarrow>
   connectionStatus (advance_to target s) = StatusReconnecting"
proof (induction target s arbitrary: r rule: advance_to.induct)
  case (1 target s)
  from "1.prems"(1) have "timers s \<noteq> []" by auto
  then obtain t where Some: "earliest (timers s) = Some t"
    using earliest_Some by blast
  from earliest_le [OF Some "1.prems"(1)] "1.prems"(3) have due: "t_due t \<le> target"
    by simp
  let ?s' = "run_timer (t_cb t)
               (s\<lparr>timers := remove1 t (timers s), now := max (now s) (t_due t)\<rparr>)"
  have unfold: "advance_to target s = advance_to target ?s'"
    using Some due by (simp add: advance_to.simps [of target s])
  have rest: "timers ?s' = remove1 t (timers s)"
    by (simp add: run_timer_timers)
  show ?case
  proof (cases "\<exists>u\<in>set (remove1 t (timers s)). sets_reconnecting u \<and> t_due u \<le> target")
    case True
    then obtain u where "u \<in> set (timers ?s')" "sets_reconnecting u" "t_due u \<le> target"
      using rest by auto
    then have "connectionStatus (advance_to target ?s') = StatusReconnecting"
      by (rule "1.IH" [OF Some due])
    with unfold show ?thesis by simp
  next
    case False
    then have "\<forall>u\<in>set (timers ?s'). t_due u \<le> target \<longrightarrow> \<not> sets_reconnecting u"
      using rest by auto
    then have kept: "connectionStatus (advance_to target ?s') = connectionStatus ?s'"
      by (rule advance_to_status_kept)
    from False "1.prems" have "r \<notin> set (remove1 t (timers s))" by blast
    with "1.prems"(1) have "t = r"
      by (metis in_set_remove1)
    with "1.prems"(2) have "connectionStatus ?s' = StatusReconnecting"
      by (simp add: run_timer_status_set)
    with kept unfold show ?thesis by simp
  qed
qed

lemma run_timer_socket:
  "sockets_created (run_timer cb s) = sockets_created s \<and> ws (run_timer cb s) = ws s"
  by (cases cb) (simp_all add: run_timer_def sendTypingIndicator_def)

lemma advance_to_socket:
  "sockets_created (advance_to target s) = sockets_created s \<and> ws (advance_to target s) = ws s"
proof (induction target s rule: advance_to.induct)
  case (1 target s)
  show ?case
  proof (cases "earliest (timers s)")
    case None
    then show ?thesis by (simp add: advance_to.simps [of target s])
  next
    case (Some t)
    show ?thesis
    proof (cases "t_due t \<le> target")
      case False
      with Some show ?thesis by (simp add: advance_to.simps [of target s])
    next
      case True
      from "1.IH" [OF Some True] Some True show ?thesis
        by (simp add: advance_to.simps [of target s] run_timer_socket)
    qed
  qed
qed

lemma run_timer_messages: "messages (run_timer cb s) = messages s"
  by (cases cb) (simp_all add: run_timer_def sendTypingIndicator_def)

lemma advance_to_messages: "messages (advance_to target s) = messages s"
proof (induction target s rule: advance_to.induct)
  case (1 target s)
  show ?case
  proof (cases "earliest (timers s)")
    case None
    then show ?thesis by (simp add: advance_to.simps [of target s])
  next
    case (Some t)
    show ?thesis
    proof (cases "t_due t \<le> target")
      case False
      with Some show ?thesis by (simp add: advance_to.simps [of target s])
    next
      case True
      from "1.IH" [OF Some True] Some True show ?thesis
        by (simp add: advance_to.simps [of target s] run_timer_messages)
    qed
  qed
qed

lemmas open_chat_defs =
  open_chat_def ws_onopen_def socket_now_def connect_effect_def chat_init_def truthy_def

lemmas call_defs =
  startCall_def startCall_begin_def startCall_resume_def startCall_catch_def
  getUserMedia_def createPeerConnection_def update_pc_def handleRemoteSignal_def
  handleEndCall_def handleEndCall_in_def pc_onconnectionstatechange_def answerCall_def
  answerCall_begin_def answerCall_resume_def answerCall_catch_def truthy_def show_user_def
  sig_init_def env_ok_def connected_session_def rejected_while_pending_def
  two_calls_in_flight_def

lemmas send_defs =
  sendMessage_def sendMessage_begin_def sendMessage_resume_def sendMessage_try_def

section \<open>The claims\<close>

text \<open>
  C1 (the code departs from the claim). An \<open>offer\<close> received while idle, no negotiation
  handle existing, should put the accept/reject decision to the user. On a freshly mounted
  component \<open>handleRemoteSignal\<close> returns at the guard of line 184 instead: whatever the
  user would have decided and whatever the capabilities would have answered, no prompt is
  shown, no signal is emitted and the state is the one before.
\<close>

theorem C1_offer_while_idle_is_dropped:
  "handleRemoteSignal e \<lparr>sig_type = ''offer'', sig_data = d, from_user = u\<rparr> sig_init = sig_init"
  by (simp add: handleRemoteSignal_def sig_init_def)

text \<open>
  C2, as claimed, fails: in a session that reached \<open>connected\<close>, an \<open>offer\<close> from a third
  user is put to the user, and declining it emits \<open>call-rejected\<close>.
\<close>

theorem C2_offer_while_connected_counterexample:
  "callStatus connected_session = Connected \<and>
   confirms (handleRemoteSignal (env_ok\<lparr>confirm_result := False\<rparr>)
      \<lparr>sig_type = ''offer'', sig_data = Some ''sdp-offer'', from_user = Some ''u3''\<rparr>
      connected_session) = [''Incoming call from user u3. Accept?''] \<and>
   signals (handleRemoteSignal (env_ok\<lparr>confirm_result := False\<rparr>)
      \<lparr>sig_type = ''offer'', sig_data = Some ''sdp-offer'', from_user = Some ''u3''\<rparr>
      connected_session) =
     signals connected_session @
       [\<lparr>o_type = ''call-rejected'', o_data = None, o_target_user = Some ''u3''\<rparr>]"
  by (simp add: call_defs)

text \<open>
  C2 (amended). An \<open>offer\<close> received while not idle is ignored, with no prompt, no outbound
  signal and no state change, exactly when no negotiation handle exists. When one exists,
  as in status \<open>connected\<close>, the accept/reject decision is put to the user: on reject
  \<open>call-rejected\<close> is emitted to \<open>from_user\<close> and nothing else changes; on accept
  \<open>answerCall\<close> runs for the new offer.
\<close>

theorem C2_offer_while_not_idle:
  "(callStatus s \<noteq> Idle \<and> peerConnectionRef s = None \<longrightarrow>
      handleRemoteSignal e \<lparr>sig_type = ''offer'', sig_data = d, from_user = u\<rparr> s = s) \<and>
   (callStatus s \<noteq> Idle \<and> peerConnectionRef s \<noteq> None \<and> \<not> confirm_result e \<longrightarrow>
      handleRemoteSignal e \<lparr>sig_type = ''offer'', sig_data = d, from_user = u\<rparr> s =
        s\<lparr>confirms := confirms s @ [''Incoming call from user '' @ show_user u @ ''. Accept?''],
          signals := signals s @
            [\<lparr>o_type = ''call-rejected'', o_data = None, o_target_user = u\<rparr>]\<rparr>) \<and>
   (callStatus s \<noteq> Idle \<and> peerConnectionRef s \<noteq> None \<and> confirm_result e \<longrightarrow>
      handleRemoteSignal e \<lparr>sig_type = ''offer'', sig_data = d, from_user = u\<rparr> s =
        answerCall e d u
          (s\<lparr>confirms := confirms s @
                [''Incoming call from user '' @ show_user u @ ''. Accept?'']\<rparr>))"
  by (simp add: handleRemoteSignal_def Let_def)

theorem C2_offer_while_not_idle_witness:
  "callStatus (startCall_begin None sig_init) = Calling \<and>
   peerConnectionRef (startCall_begin None sig_init) = None \<and>
   handleRemoteSignal env_ok
     \<lparr>sig_type = ''offer'', sig_data = Some ''sdp-offer'', from_user = Some ''u3''\<rparr>
     (startCall_begin None sig_init) = startCall_begin None sig_init \<and>
   callStatus connected_session = Connected \<and>
   peerConnectionRef connected_session = Some 0 \<and>
   signals (handleRemoteSignal (env_ok\<lparr>confirm_result := False\<rparr>)
     \<lparr>sig_type = ''offer'', sig_data = Some ''sdp-offer'', from_user = Some ''u3''\<rparr>
     connected_session) =
     [\<lparr>o_type = ''offer'', o_data = Some ''sdp-offer'', o_target_user = None\<rparr>,
      \<lparr>o_type = ''call-rejected'', o_data = None, o_target_user = Some ''u3''\<rparr>] \<and>
   callStatus (handleRemoteSignal env_ok
     \<lparr>sig_type = ''offer'', sig_data = Some ''sdp-offer'', from_user = Some ''u3''\<rparr>
     connected_session) = Connecting"
proof -
  have a: "callStatus (startCall_begin None sig_init) = Calling"
    and b: "peerConnectionRef (startCall_begin None sig_init) = None"
    by (simp_all add: startCall_begin_def sig_init_def)
  have c: "callStatus connected_session = Connected"
    and d: "peerConnectionRef connected_session = Some 0"
    and g: "signals connected_session =
      [\<lparr>o_type = ''offer'', o_data = Some ''sdp-offer'', o_target_user = None\<rparr>]"
    by (simp_all add: call_defs)
  have r: "\<not> confirm_result (env_ok\<lparr>confirm_result := False\<rparr>)"
    and y: "confirm_result env_ok"
    by (simp_all add: env_ok_def)
  have k: "callStatus (answerCall env_ok (Some ''sdp-offer'') (Some ''u3'') t) = Connecting" for t
    by (simp add: answerCall_def answerCall_begin_def answerCall_resume_def getUserMedia_def
        createPeerConnection_def update_pc_def env_ok_def Let_def)
  note n1 = C2_offer_while_not_idle
    [of "startCall_begin None sig_init" env_ok "Some ''sdp-offer''" "Some ''u3''"]
  note n2 = C2_offer_while_not_idle
    [of connected_session "env_ok\<lparr>confirm_result := False\<rparr>" "Some ''sdp-offer''" "Some ''u3''"]
  note n3 = C2_offer_while_not_idle
    [of connected_session env_ok "Some ''sdp-offer''" "Some ''u3''"]
  from n1 a b have 1: "handleRemoteSignal env_ok
     \<lparr>sig_type = ''offer'', sig_data = Some ''sdp-offer'', from_user = Some ''u3''\<rparr>
     (startCall_begin None sig_init) = startCall_begin None sig_init"
    by simp
  from n2 c d r have 2: "signals (handleRemoteSignal (env_ok\<lparr>confirm_result := False\<rparr>)
     \<lparr>sig_type = ''offer'', sig_data = Some ''sdp-offer'', from_user = Some ''u3''\<rparr>
     connected_session) =
     [\<lparr>o_type = ''offer'', o_data = Some ''sdp-offer'', o_target_user = None\<rparr>,
      \<lparr>o_type = ''call-rejected'', o_data = None, o_target_user = Some ''u3''\<rparr>]"
    by (simp add: g)
  from n3 c d y have 3: "callStatus (handleRemoteSignal env_ok
     \<lparr>sig_type = ''offer'', sig_data = Some ''sdp-offer'', from_user = Some ''u3''\<rparr>
     connected_session) = Connecting"
    by (simp add: k)
  from a b c d 1 2 3 show ?thesis by simp
qed

text \<open>
  C3 (the code departs from the claim). Every way back to idle should release the media
  handle and the negotiation handle, as \<open>handleEndCall\<close> does. Two ways do not. A
  \<open>call-rejected\<close> signal arriving after a successful \<open>startCall\<close> sets the status to idle
  and leaves stream 1 and peer connection 0 in their refs, neither stopped nor closed. A
  \<open>startCall\<close> whose \<open>createOffer\<close> fails, after the peer connection was created, does the
  same from its \<open>catch\<close> block.
\<close>

theorem C3_exits_to_idle_keep_handles:
  "(let s = handleRemoteSignal env_ok
              \<lparr>sig_type = ''call-rejected'', sig_data = None, from_user = Some ''u2''\<rparr>
              (startCall env_ok None sig_init)
    in callStatus s = Idle \<and> localStreamRef s = Some 1 \<and> peerConnectionRef s = Some 0 \<and>
       stopped_streams s = [] \<and> closed_pcs s = []) \<and>
   (let s = startCall (env_ok\<lparr>createOffer_result := Inl ''createOffer failed''\<rparr>) None sig_init
    in callStatus s = Idle \<and> localStreamRef s = Some 1 \<and> peerConnectionRef s = Some 0 \<and>
       stopped_streams s = [] \<and> closed_pcs s = [] \<and> alerts s = [''createOffer failed''])"
  by (simp add: call_defs)

text \<open>
  C4. In every state, a \<open>call-ended\<close> signal sets the status to idle, empties the media and
  negotiation refs, and resets \<open>remoteUserId\<close> to null and \<open>muted\<close> to false with the other
  session flags. Each handle that was held is released by exactly one call (\<open>stop\<close> on the
  local and the remote stream, \<open>close\<close> on the peer connection), and a further \<open>call-ended\<close>
  releases nothing again.
\<close>

theorem C4_call_ended_tears_down:
  "(let s' = handleRemoteSignal e \<lparr>sig_type = ''call-ended'', sig_data = d, from_user = u\<rparr> s;
        s'' = handleRemoteSignal e' \<lparr>sig_type = ''call-ended'', sig_data = d', from_user = u'\<rparr> s'
    in callStatus s' = Idle \<and> remoteUserId s' = None \<and> \<not> isMuted s' \<and>
       \<not> isInCall s' \<and> \<not> isConnecting s' \<and>
       localStreamRef s' = None \<and> remoteStreamRef s' = None \<and> peerConnectionRef s' = None \<and>
       stopped_streams s' =
         stopped_streams s @ held (localStreamRef s) @ held (remoteStreamRef s) \<and>
       closed_pcs s' = closed_pcs s @ held (peerConnectionRef s) \<and>
       stopped_streams s'' = stopped_streams s' \<and> closed_pcs s'' = closed_pcs s')"
  by (simp add: handleRemoteSignal_def handleEndCall_def handleEndCall_in_def held_def Let_def
      split: option.splits)

text \<open>
  C5, as claimed, fails, by presses of the button alone: a \<open>call-rejected\<close> signal that
  arrives while the first \<open>startCall\<close> waits for its media brings the button back, the
  second \<open>startCall\<close> is not ignored, and when both have run two \<open>offer\<close> signals have been
  sent and two negotiation handles exist, neither closed, the first no longer in the ref.
\<close>

theorem C5_two_calls_through_button_counterexample:
  "start_button_rendered sig_init \<and>
   \<not> start_button_rendered (startCall_begin None sig_init) \<and>
   start_button_rendered rejected_while_pending \<and>
   map o_type (signals two_calls_in_flight) = [''offer'', ''offer''] \<and>
   pcs two_calls_in_flight 0 \<noteq> None \<and> pcs two_calls_in_flight 1 \<noteq> None \<and>
   closed_pcs two_calls_in_flight = [] \<and>
   peerConnectionRef two_calls_in_flight = Some 1"
  by (simp add: start_button_rendered_def call_defs)

text \<open>
  C5 (amended). \<open>startCall\<close> checks no state: in whatever state it is invoked or resumed, if
  its media acquisition, offer construction and \<open>setLocalDescription\<close> succeed, it creates
  a negotiation handle of its own, puts it in the ref, closes and stops nothing, and sends
  exactly one \<open>offer\<close> to its target. The only gate is the Start Call button, rendered
  exactly while \<open>isInCall\<close> and \<open>isConnecting\<close> are both false. Right after the part of
  \<open>startCall\<close> before its first suspension the button is not rendered; a \<open>call-rejected\<close>
  or \<open>call-ended\<close> signal that arrives while the media request is pending makes it
  rendered again, so a second \<open>startCall\<close> can start while the first is in flight. When two
  invocations have both run, two offers have been sent and two negotiation handles exist
  at once.
\<close>

theorem C5_startCall_unguarded:
  "\<not> start_button_rendered (startCall_begin t s) \<and>
   (start_button_rendered s \<longrightarrow>
      start_button_rendered
        (handleRemoteSignal e0 \<lparr>sig_type = ''call-rejected'', sig_data = d, from_user = u\<rparr>
           (startCall_begin t s))) \<and>
   start_button_rendered
     (handleRemoteSignal e0 \<lparr>sig_type = ''call-ended'', sig_data = d, from_user = u\<rparr>
        (startCall_begin t s)) \<and>
   (getUserMedia_result e = Inr st \<and> createOffer_result e = Inr off \<and>
    setLocalDescription_result e = Inr () \<longrightarrow>
      signals (startCall e t s) =
        signals s @ [\<lparr>o_type = ''offer'', o_data = Some off, o_target_user = t\<rparr>] \<and>
      callStatus (startCall e t s) = Calling \<and>
      signals (startCall_resume e t s) =
        signals s @ [\<lparr>o_type = ''offer'', o_data = Some off, o_target_user = t\<rparr>] \<and>
      peerConnectionRef (startCall_resume e t s) = Some (next_pc s) \<and>
      pcs (startCall_resume e t s) (next_pc s) =
        Some \<lparr>pc_tracks = [st], pc_localDescription = Some off, pc_remoteDescription = None,
              pc_candidates = []\<rparr> \<and>
      (h \<noteq> next_pc s \<longrightarrow> pcs (startCall_resume e t s) h = pcs s h) \<and>
      next_pc (startCall_resume e t s) = Suc (next_pc s) \<and>
      closed_pcs (startCall_resume e t s) = closed_pcs s \<and>
      stopped_streams (startCall_resume e t s) = stopped_streams s \<and>
      callStatus (startCall_resume e t s) = callStatus s \<and>
      isConnecting (startCall_resume e t s) = isConnecting s \<and>
      isInCall (startCall_resume e t s) = isInCall s) \<and>
   (getUserMedia_result e = Inr st \<and> createOffer_result e = Inr off \<and>
    setLocalDescription_result e = Inr () \<and>
    getUserMedia_result e2 = Inr st2 \<and> createOffer_result e2 = Inr off2 \<and>
    setLocalDescription_result e2 = Inr () \<longrightarrow>
      signals (startCall_resume e2 t2 (startCall_resume e t s)) =
        signals s @ [\<lparr>o_type = ''offer'', o_data = Some off, o_target_user = t\<rparr>,
                     \<lparr>o_type = ''offer'', o_data = Some off2, o_target_user = t2\<rparr>] \<and>
      pcs (startCall_resume e2 t2 (startCall_resume e t s)) (next_pc s) \<noteq> None \<and>
      pcs (startCall_resume e2 t2 (startCall_resume e t s)) (Suc (next_pc s)) \<noteq> None \<and>
      closed_pcs (startCall_resume e2 t2 (startCall_resume e t s)) = closed_pcs s)"
proof -
  have button: "\<not> start_button_rendered (startCall_begin t s)"
    by (simp add: start_button_rendered_def startCall_begin_def)
  have rejected: "start_button_rendered s \<longrightarrow>
      start_button_rendered
        (handleRemoteSignal e0 \<lparr>sig_type = ''call-rejected'', sig_data = d, from_user = u\<rparr>
           (startCall_begin t s))"
    by (simp add: start_button_rendered_def startCall_begin_def handleRemoteSignal_def)
  have ended: "start_button_rendered
     (handleRemoteSignal e0 \<lparr>sig_type = ''call-ended'', sig_data = d, from_user = u\<rparr>
        (startCall_begin t s))"
    by (simp add: start_button_rendered_def handleRemoteSignal_def handleEndCall_def
        handleEndCall_in_def Let_def)
  have one: "getUserMedia_result e = Inr st \<and> createOffer_result e = Inr off \<and>
    setLocalDescription_result e = Inr () \<longrightarrow>
      signals (startCall e t s) =
        signals s @ [\<lparr>o_type = ''offer'', o_data = Some off, o_target_user = t\<rparr>] \<and>
      callStatus (startCall e t s) = Calling \<and>
      signals (startCall_resume e t s) =
        signals s @ [\<lparr>o_type = ''offer'', o_data = Some off, o_target_user = t\<rparr>] \<and>
      peerConnectionRef (startCall_resume e t s) = Some (next_pc s) \<and>
      pcs (startCall_resume e t s) (next_pc s) =
        Some \<lparr>pc_tracks = [st], pc_localDescription = Some off, pc_remoteDescription = None,
              pc_candidates = []\<rparr> \<and>
      (h \<noteq> next_pc s \<longrightarrow> pcs (startCall_resume e t s) h = pcs s h) \<and>
      next_pc (startCall_resume e t s) = Suc (next_pc s) \<and>
      closed_pcs (startCall_resume e t s) = closed_pcs s \<and>
      stopped_streams (startCall_resume e t s) = stopped_streams s \<and>
      callStatus (startCall_resume e t s) = callStatus s \<and>
      isConnecting (startCall_resume e t s) = isConnecting s \<and>
      isInCall (startCall_resume e t s) = isInCall s"
    by (simp add: startCall_def startCall_begin_def startCall_resume_def getUserMedia_def
        createPeerConnection_def update_pc_def Let_def)
  have two: "getUserMedia_result e = Inr st \<and> createOffer_result e = Inr off \<and>
    setLocalDescription_result e = Inr () \<and>
    getUserMedia_result e2 = Inr st2 \<and> createOffer_result e2 = Inr off2 \<and>
    setLocalDescription_result e2 = Inr () \<longrightarrow>
      signals (startCall_resume e2 t2 (startCall_resume e t s)) =
        signals s @ [\<lparr>o_type = ''offer'', o_data = Some off, o_target_user = t\<rparr>,
                     \<lparr>o_type = ''offer'', o_data = Some off2, o_target_user = t2\<rparr>] \<and>
      pcs (startCall_resume e2 t2 (startCall_resume e t s)) (next_pc s) \<noteq> None \<and>
      pcs (startCall_resume e2 t2 (startCall_resume e t s)) (Suc (next_pc s)) \<noteq> None \<and>
      closed_pcs (startCall_resume e2 t2 (startCall_resume e t s)) = closed_pcs s"
    by (simp add: startCall_resume_def getUserMedia_def createPeerConnection_def update_pc_def
        Let_def)
  from button rejected ended one two show ?thesis by blast
qed

theorem C5_startCall_unguarded_witness:
  "start_button_rendered sig_init \<and>
   \<not> start_button_rendered (startCall_begin None sig_init) \<and>
   start_button_rendered rejected_while_pending \<and>
   getUserMedia_result env_ok = Inr 1 \<and> createOffer_result env_ok = Inr ''sdp-offer'' \<and>
   setLocalDescription_result env_ok = Inr () \<and>
   getUserMedia_result (env_ok\<lparr>getUserMedia_result := Inr 2\<rparr>) = Inr 2 \<and>
   signals two_calls_in_flight =
     [\<lparr>o_type = ''offer'', o_data = Some ''sdp-offer'', o_target_user = None\<rparr>,
      \<lparr>o_type = ''offer'', o_data = Some ''sdp-offer'', o_target_user = None\<rparr>] \<and>
   pcs two_calls_in_flight 0 \<noteq> None \<and> pcs two_calls_in_flight 1 \<noteq> None \<and>
   closed_pcs two_calls_in_flight = []"
proof -
  let ?e2 = "env_ok\<lparr>getUserMedia_result := Inr 2\<rparr>"
  let ?s = "startCall_begin None rejected_while_pending"
  have e: "getUserMedia_result env_ok = Inr 1" "createOffer_result env_ok = Inr ''sdp-offer''"
    "setLocalDescription_result env_ok = Inr ()"
    and e2: "getUserMedia_result ?e2 = Inr 2" "createOffer_result ?e2 = Inr ''sdp-offer''"
    "setLocalDescription_result ?e2 = Inr ()"
    by (simp_all add: env_ok_def)
  have b: "start_button_rendered sig_init"
    by (simp add: start_button_rendered_def sig_init_def)
  have i: "signals ?s = []" "next_pc ?s = 0" "closed_pcs ?s = []"
    by (simp_all add: rejected_while_pending_def startCall_begin_def handleRemoteSignal_def
        sig_init_def)
  note n1 = C5_startCall_unguarded
    [where t = None and s = sig_init and ?e0.0 = env_ok and d = None and u = "Some ''u2''"]
  note n2 = C5_startCall_unguarded
    [where t = None and s = ?s and e = env_ok and st = 1 and off = "''sdp-offer''"
       and ?e2.0 = ?e2 and ?st2.0 = 2 and ?off2.0 = "''sdp-offer''" and ?t2.0 = None]
  from n1 have 1: "\<not> start_button_rendered (startCall_begin None sig_init)" by blast
  from n1 b have 2: "start_button_rendered rejected_while_pending"
    unfolding rejected_while_pending_def by blast
  from n2 e e2 have 3:
    "signals two_calls_in_flight =
       [\<lparr>o_type = ''offer'', o_data = Some ''sdp-offer'', o_target_user = None\<rparr>,
        \<lparr>o_type = ''offer'', o_data = Some ''sdp-offer'', o_target_user = None\<rparr>]"
    "pcs two_calls_in_flight 0 \<noteq> None" "pcs two_calls_in_flight 1 \<noteq> None"
    "closed_pcs two_calls_in_flight = []"
    unfolding two_calls_in_flight_def by (simp_all add: i)
  from b 1 2 e e2(1) 3 show ?thesis by simp
qed

text \<open>
  C6, as claimed, fails: with the socket open, a persistence call answered with status 500
  appends the system message and sends nothing over the transport.
\<close>

theorem C6_transport_send_skipped_counterexample:
  "ws open_chat = Some OPEN \<and>
   sent (sendMessage (code_units ''hello'') (Response False 500) open_chat) = [] \<and>
   messages (sendMessage (code_units ''hello'') (Response False 500) open_chat) =
     [\<lparr>m_id = 0, m_content = ''Error: Failed to send message: 500'', m_sender = ''system'',
       m_timestamp = 0\<rparr>]"
  by (simp add: send_defs open_chat_defs hello_not_blank show_nat_500)

text \<open>
  C6 (amended). For content that is not blank: when the persistence call fails, by a
  rejected request or by a response that is not ok, exactly one \<open>system\<close> message with the
  failure reason is appended and the transport send is not attempted; when it succeeds, no
  message is appended and the \<open>chat_message\<close> frame is sent if the socket is open. For
  blank content nothing happens at all.
\<close>

theorem C6_sendMessage_outcomes:
  "(trim content \<noteq> [] \<longrightarrow>
      messages (sendMessage content (FetchFailed msg) s) =
        messages s @ [\<lparr>m_id = now s, m_content = ''Error: '' @ msg, m_sender = ''system'',
                       m_timestamp = now s\<rparr>] \<and>
      sent (sendMessage content (FetchFailed msg) s) = sent s \<and>
      messages (sendMessage content (Response False status) s) =
        messages s @ [\<lparr>m_id = now s,
                       m_content = ''Error: '' @ ''Failed to send message: '' @ show_nat status,
                       m_sender = ''system'', m_timestamp = now s\<rparr>] \<and>
      sent (sendMessage content (Response False status) s) = sent s \<and>
      messages (sendMessage content (Response True status) s) = messages s \<and>
      sent (sendMessage content (Response True status) s) =
        sent s @ (if ws s = Some OPEN then [ChatMessageOut content] else [])) \<and>
   (trim content = [] \<longrightarrow> sendMessage content outcome s = s)"
  by (simp add: send_defs)

theorem C6_sendMessage_outcomes_witness:
  "trim (code_units ''hello'') \<noteq> [] \<and>
   messages (sendMessage (code_units ''hello'') (FetchFailed ''Failed to fetch'') open_chat) =
     [\<lparr>m_id = 0, m_content = ''Error: Failed to fetch'', m_sender = ''system'',
       m_timestamp = 0\<rparr>] \<and>
   sent (sendMessage (code_units ''hello'') (FetchFailed ''Failed to fetch'') open_chat) = [] \<and>
   sent (sendMessage (code_units ''hello'') (Response True 201) open_chat) =
     [ChatMessageOut (code_units ''hello'')] \<and>
   trim [0xA0, 0x20, 0x2028] = [] \<and>
   sendMessage [0xA0, 0x20, 0x2028] (Response False 500) open_chat = open_chat"
proof -
  have t: "trim (code_units ''hello'') \<noteq> []" by (rule hello_not_blank)
  have b: "trim [0xA0, 0x20, 0x2028] = []" by (simp add: trim_def is_space_def)
  have o: "ws open_chat = Some OPEN" "messages open_chat = []" "sent open_chat = []"
    "now open_chat = 0"
    by (simp_all add: open_chat_defs)
  note n1 = C6_sendMessage_outcomes
    [where content = "code_units ''hello''" and msg = "''Failed to fetch''" and s = open_chat
       and status = 201]
  note n2 = C6_sendMessage_outcomes
    [where content = "[0xA0, 0x20, 0x2028]" and outcome = "Response False 500"
       and s = open_chat]
  from n2 b have 2: "sendMessage [0xA0, 0x20, 0x2028] (Response False 500) open_chat = open_chat"
    by blast
  from n1 t o b 2 show ?thesis by simp
qed

text \<open>
  C7, as claimed, fails: submitting \<open>hello\<close> issues the persistence request and leaves the
  timeline empty while that request is pending.
\<close>

theorem C7_no_optimistic_append_counterexample:
  "posted (handleSubmit (open_chat\<lparr>newMessage := code_units ''hello''\<rparr>)) =
     [code_units ''hello''] \<and>
   messages (handleSubmit (open_chat\<lparr>newMessage := code_units ''hello''\<rparr>)) = []"
  by (simp add: handleSubmit_def sendMessage_begin_def sendTypingIndicator_def open_chat_defs
      hello_not_blank)

text \<open>
  C7 (amended). Submitting a message does not change the local timeline while the
  persistence call is pending. The timeline grows by the message only when a \<open>chat_message\<close>
  frame arrives over the transport: it is appended at the end. A persistence failure
  appends exactly one \<open>system\<close> message and keeps every earlier entry. Nothing else
  in the component changes the timeline: not a persistence success, a keystroke, a timer,
  the passing of time, a socket event, the connection effect, an outbound signal or a
  frame of any other type.
\<close>

theorem C7_timeline_growth:
  "messages (handleSubmit s) = messages s \<and>
   messages (sendMessage_begin content s) = messages s \<and>
   messages (fst (handleWebSocketMessage e (ChatMessage m) (s, g))) = messages s @ [m] \<and>
   (sendMessage_try content outcome s = Inl reason \<longrightarrow>
      messages (sendMessage_resume content outcome s) =
        messages s @ [\<lparr>m_id = now s, m_content = ''Error: '' @ reason, m_sender = ''system'',
                       m_timestamp = now s\<rparr>]) \<and>
   messages (sendMessage_resume content (Response True status) s) = messages s \<and>
   messages (handleTyping v s) = messages s \<and>
   messages (run_timer cb s) = messages s \<and>
   messages (advance dt s) = messages s \<and>
   messages (ws_onopen s) = messages s \<and>
   messages (ws_onclose tok s) = messages s \<and>
   messages (ws_onerror s) = messages s \<and>
   messages (connect_effect s) = messages s \<and>
   messages (handleSignal signal s) = messages s \<and>
   messages (fst (handleWebSocketMessage e (ConnectionEstablished x) (s, g))) = messages s \<and>
   messages (fst (handleWebSocketMessage e (TypingIndicator u b) (s, g))) = messages s \<and>
   messages (fst (handleWebSocketMessage e (WebrtcSignal sg) (s, g))) = messages s \<and>
   messages (fst (handleWebSocketMessage e VoiceData (s, g))) = messages s \<and>
   messages (fst (handleWebSocketMessage e (ErrorFrame x) (s, g))) = messages s \<and>
   messages (fst (handleWebSocketMessage e Pong (s, g))) = messages s \<and>
   messages (fst (handleWebSocketMessage e (UnknownFrame x) (s, g))) = messages s"
proof -
  have submit: "messages (handleSubmit s) = messages s"
    "messages (sendMessage_begin content s) = messages s"
    by (simp_all add: handleSubmit_def sendMessage_begin_def sendTypingIndicator_def)
  have settle: "sendMessage_try content outcome s = Inl reason \<longrightarrow>
      messages (sendMessage_resume content outcome s) =
        messages s @ [\<lparr>m_id = now s, m_content = ''Error: '' @ reason, m_sender = ''system'',
                       m_timestamp = now s\<rparr>]"
    "messages (sendMessage_resume content (Response True status) s) = messages s"
    by (simp_all add: sendMessage_resume_def sendMessage_try_def)
  have key: "messages (handleTyping v s) = messages s"
    by (simp add: handleTyping_def sendTypingIndicator_def clearTimeout_def setTimeout_def
        Let_def split: option.splits)
  have timer: "messages (run_timer cb s) = messages s" "messages (advance dt s) = messages s"
    by (simp_all add: run_timer_messages advance_def advance_to_messages)
  have socket: "messages (ws_onopen s) = messages s" "messages (ws_onclose tok s) = messages s"
    "messages (ws_onerror s) = messages s" "messages (connect_effect s) = messages s"
    "messages (handleSignal signal s) = messages s"
    by (simp_all add: ws_onopen_def ws_onclose_def ws_onerror_def socket_now_def setTimeout_def
        connect_effect_def handleSignal_def)
  have frames:
    "messages (fst (handleWebSocketMessage e (ChatMessage m) (s, g))) = messages s @ [m]"
    "messages (fst (handleWebSocketMessage e (ConnectionEstablished x) (s, g))) = messages s"
    "messages (fst (handleWebSocketMessage e (TypingIndicator u b) (s, g))) = messages s"
    "messages (fst (handleWebSocketMessage e (WebrtcSignal sg) (s, g))) = messages s"
    "messages (fst (handleWebSocketMessage e VoiceData (s, g))) = messages s"
    "messages (fst (handleWebSocketMessage e (ErrorFrame x) (s, g))) = messages s"
    "messages (fst (handleWebSocketMessage e Pong (s, g))) = messages s"
    "messages (fst (handleWebSocketMessage e (UnknownFrame x) (s, g))) = messages s"
    by (simp_all add: handleWebSocketMessage_def handleTypingIndicator_def)
  from submit settle key timer socket frames show ?thesis by simp
qed

theorem C7_timeline_growth_witness:
  "sendMessage_try (code_units ''hello'') (Response False 500)
     (handleSubmit (open_chat\<lparr>newMessage := code_units ''hello''\<rparr>)) =
     Inl ''Failed to send message: 500'' \<and>
   messages (sendMessage_resume (code_units ''hello'') (Response False 500)
     (handleSubmit (open_chat\<lparr>newMessage := code_units ''hello''\<rparr>))) =
     [\<lparr>m_id = 0, m_content = ''Error: Failed to send message: 500'', m_sender = ''system'',
       m_timestamp = 0\<rparr>]"
proof -
  let ?s = "handleSubmit (open_chat\<lparr>newMessage := code_units ''hello''\<rparr>)"
  have t: "sendMessage_try (code_units ''hello'') (Response False 500) ?s =
      Inl ''Failed to send message: 500''"
    by (simp add: sendMessage_try_def show_nat_500)
  have n: "now ?s = 0" "messages open_chat = []"
    by (simp_all add: handleSubmit_def sendMessage_begin_def sendTypingIndicator_def
        open_chat_defs)
  note a = C7_timeline_growth [where s = "open_chat\<lparr>newMessage := code_units ''hello''\<rparr>"]
  note b = C7_timeline_growth
    [where s = ?s and content = "code_units ''hello''" and outcome = "Response False 500"
       and reason = "''Failed to send message: 500''"]
  from a have "messages ?s = []" by (simp add: n)
  with b t n show ?thesis by simp
qed

text \<open>
  C8 (the code departs from the claim). After a close, or a network error followed by its
  close, the status becomes \<open>disconnected\<close> and a timer of 3000 ms is scheduled, and the
  comment on that timer says \<open>Attempt to reconnect after 3 seconds\<close>. The callback only
  sets the status to \<open>reconnecting\<close>. On a chat that was connected, however long one waits
  after the 3000 ms, the one socket ever built stays the only one and stays closed, and the
  status stays \<open>reconnecting\<close>: no reconnection attempt is made, so none can succeed.
\<close>

theorem C8_timer_never_reconnects:
  "connectionStatus open_chat = StatusConnected \<and> sockets_created open_chat = 1 \<and>
   connectionStatus (ws_onclose (Some ''token'') open_chat) = StatusDisconnected \<and>
   connectionStatus (advance (3000 + d) (ws_onclose (Some ''token'') open_chat)) =
     StatusReconnecting \<and>
   sockets_created (advance (3000 + d) (ws_onclose (Some ''token'') open_chat)) = 1 \<and>
   ws (advance (3000 + d) (ws_onclose (Some ''token'') open_chat)) = Some CLOSED \<and>
   connectionStatus (ws_onclose (Some ''token'') (ws_onerror open_chat)) = StatusDisconnected \<and>
   connectionStatus (advance (3000 + d) (ws_onclose (Some ''token'') (ws_onerror open_chat))) =
     StatusReconnecting \<and>
   sockets_created (advance (3000 + d) (ws_onclose (Some ''token'') (ws_onerror open_chat))) = 1 \<and>
   ws (advance (3000 + d) (ws_onclose (Some ''token'') (ws_onerror open_chat))) = Some CLOSED"
proof -
  let ?r = "\<lparr>t_id = 1, t_due = 3000, t_cb = SetReconnecting (Some ''token'')\<rparr>"
  have r: "sets_reconnecting ?r"
    by (simp add: sets_reconnecting_def truthy_def)
  have after: "connectionStatus (advance (3000 + d) c) = StatusReconnecting \<and>
      sockets_created (advance (3000 + d) c) = sockets_created c \<and>
      ws (advance (3000 + d) c) = ws c"
    if "timers c = [?r]" "now c = 0" for c
  proof -
    have m: "?r \<in> set (timers c)" and due: "t_due ?r \<le> now c + (3000 + d)"
      using that by simp_all
    have "connectionStatus (advance_to (now c + (3000 + d)) c) = StatusReconnecting"
      using m r due by (rule advance_to_status_reconnecting)
    then show ?thesis
      by (simp add: advance_def advance_to_socket)
  qed
  let ?c1 = "ws_onclose (Some ''token'') open_chat"
  let ?c2 = "ws_onclose (Some ''token'') (ws_onerror open_chat)"
  have o: "connectionStatus open_chat = StatusConnected" "sockets_created open_chat = 1"
    by (simp_all add: open_chat_defs)
  have c1: "timers ?c1 = [?r]" "now ?c1 = 0" "connectionStatus ?c1 = StatusDisconnected"
    "sockets_created ?c1 = 1" "ws ?c1 = Some CLOSED"
    by (simp_all add: ws_onclose_def setTimeout_def open_chat_defs)
  have c2: "timers ?c2 = [?r]" "now ?c2 = 0" "connectionStatus ?c2 = StatusDisconnected"
    "sockets_created ?c2 = 1" "ws ?c2 = Some CLOSED"
    by (simp_all add: ws_onclose_def ws_onerror_def setTimeout_def open_chat_defs)
  from after [OF c1(1,2)] after [OF c2(1,2)] o c1 c2 show ?thesis by simp
qed



text \<open>
  C10. The typing registry never holds a user identifier twice: starting from the empty
  registry, after every sequence of remote typing events the registry is duplicate-free;
  one event keeps a duplicate-free registry duplicate-free; and \<open>is_typing = true\<close> for an
  identifier already present leaves the state as it was.
\<close>

theorem C10_typing_registry_distinct:
  "distinct (typingUsers (remote_typing evs chat_init)) \<and>
   (distinct (typingUsers s) \<longrightarrow> distinct (typingUsers (handleTypingIndicator u b s))) \<and>
   (u \<in> set (typingUsers s) \<longrightarrow> handleTypingIndicator u True s = s)"
proof -
  have "distinct (typingUsers chat_init)" by (simp add: chat_init_def)
  then have "distinct (typingUsers (remote_typing evs chat_init))"
    by (rule remote_typing_distinct)
  then show ?thesis
    by (simp add: handleTypingIndicator_distinct) (simp add: handleTypingIndicator_def)
qed

theorem C10_typing_registry_distinct_witness:
  "typingUsers (remote_typing [(''u2'', True), (''u3'', True)] chat_init) = [''u2'', ''u3''] \<and>
   distinct (typingUsers (remote_typing [(''u2'', True), (''u3'', True)] chat_init)) \<and>
   ''u2'' \<in> set (typingUsers (remote_typing [(''u2'', True), (''u3'', True)] chat_init)) \<and>
   handleTypingIndicator ''u2'' True (remote_typing [(''u2'', True), (''u3'', True)] chat_init) =
     remote_typing [(''u2'', True), (''u3'', True)] chat_init"
proof -
  let ?s = "remote_typing [(''u2'', True), (''u3'', True)] chat_init"
  have v: "typingUsers ?s = [''u2'', ''u3'']"
    by (simp add: handleTypingIndicator_def chat_init_def)
  from C10_typing_registry_distinct [of "[(''u2'', True), (''u3'', True)]" ?s "''u2''"] v
  show ?thesis by simp
qed

end
